theory Spec2Isabelle
  imports Main "HOL-Library.Word"
begin

section \<open>JavaScript values used by the URL builders\<close>

text \<open>
  The endpoint parameters are typed \<open>number | string\<close> in both variants, and a
  template literal converts its argument with the language's ToString. That conversion
  is the language's, not the repository's. A number is modelled as follows.
  \<^item> A safe integer, of magnitude at most \<open>2^53 - 1\<close>, is a sign and a 53-bit
    magnitude. ToString renders it as the decimal digits of its magnitude, after a
    minus sign when it is negative; negative zero renders as \<open>0\<close>.
  \<^item> Any other number (a larger one, which ToString renders with the shortest digits
    that read back as the same double, or with an exponent from \<open>10^21\<close> on; a
    fraction; NaN; an infinity) is represented by the string that ToString returns for
    it, since that string is all the URL builders observe of a number.
\<close>

datatype number = SafeInteger bool "53 word" | OtherNumber string

datatype id_arg = IdNum number | IdStr string

fun nat_digits :: "nat \<Rightarrow> string" where
  "nat_digits n =
     (if n < 10 then [''0123456789'' ! n]
      else nat_digits (n div 10) @ [''0123456789'' ! (n mod 10)])"

declare nat_digits.simps [simp del]

fun number_toString :: "number \<Rightarrow> string" where
  "number_toString (SafeInteger negative magnitude) =
     (if negative \<and> magnitude \<noteq> 0 then ''-'' else []) @ nat_digits (unat magnitude)"
| "number_toString (OtherNumber rendering) = rendering"

fun toString :: "id_arg \<Rightarrow> string" where
  "toString (IdStr s) = s"
| "toString (IdNum n) = number_toString n"

text \<open>
  The number that a string of decimal digits denotes, to state what \<open>nat_digits\<close>
  returns without referring to how it computes.
\<close>

definition digit_value :: "char \<Rightarrow> nat" where
  "digit_value c = of_char c - 48"

definition digits_value :: "string \<Rightarrow> nat" where
  "digits_value s = foldl (\<lambda>v c. 10 * v + digit_value c) 0 s"

text \<open>
  \<open>process.env\<close> is a dictionary from variable names to strings; reading a variable
  that is not set gives \<open>undefined\<close>, modelled as \<open>None\<close>. An optional string
  argument (\<open>baseUrl?: string\<close>) is a \<open>string option\<close> in the same way.
\<close>

type_synonym env = "string \<rightharpoonup> string"

text \<open>\<open>v || d\<close> for \<open>v : string | undefined\<close>: both \<open>undefined\<close> and the empty string are falsy.\<close>

definition or_else :: "string option \<Rightarrow> string \<Rightarrow> string" where
  "or_else v d = (case v of None \<Rightarrow> d | Some s \<Rightarrow> (if s = [] then d else s))"

text \<open>The template literal \<open>`${v}`\<close> for \<open>v : string | undefined\<close>.\<close>

definition interpolate :: "string option \<Rightarrow> string" where
  "interpolate v = (case v of None \<Rightarrow> ''undefined'' | Some s \<Rightarrow> s)"

section \<open>The operations of the registry\<close>

text \<open>
  One constructor per leaf of the namespace, grouped as the source groups them; the
  members of a nested \<open>admin\<close> or \<open>addresses\<close> object carry that name as an infix.
  A call \<open>LittleBugShop().Users.getById(7)\<close> is the value \<open>Users (Users_getById (IdNum 7))\<close>.
  The operation clearing the cart is called \<open>delete\<close> in the object-literal variant and
  \<open>clear\<close> in the class-based one; it is \<open>Cart_delete\<close> here.
\<close>

datatype users_op =
    Users_register
  | Users_login
  | Users_logout
  | Users_getById id_arg
  | Users_admin_users
  | Users_admin_getUserById id_arg
  | Users_admin_updateUser id_arg
  | Users_admin_resetPassword id_arg

datatype products_op =
    Products_list
  | Products_create
  | Products_getById id_arg
  | Products_update id_arg
  | Products_delete id_arg
  | Products_availability id_arg
  | Products_stock id_arg
  | Products_increaseStock id_arg
  | Products_decreaseStock id_arg

datatype cart_op =
    Cart_get
  | Cart_delete
  | Cart_addItem
  | Cart_updateItem id_arg
  | Cart_removeItem id_arg
  | Cart_checkout
  | Cart_applyCoupon
  | Cart_removeCoupon

datatype orders_op =
    Orders_create
  | Orders_place
  | Orders_list
  | Orders_myOrders
  | Orders_getById id_arg
  | Orders_delete id_arg
  | Orders_updateStatus id_arg
  | Orders_pending
  | Orders_cancel id_arg

datatype profile_op =
    Profile_get
  | Profile_update
  | Profile_addresses_add
  | Profile_addresses_update id_arg
  | Profile_addresses_delete id_arg
  | Profile_addresses_setDefault id_arg
  | Profile_changePassword

datatype reviews_op =
    Reviews_create id_arg
  | Reviews_list id_arg
  | Reviews_getById id_arg id_arg
  | Reviews_delete id_arg id_arg
  | Reviews_myReview id_arg
  | Reviews_markHelpful id_arg
  | Reviews_moderate id_arg id_arg
  | Reviews_admin_list

datatype wishlist_op =
    Wishlist_get
  | Wishlist_clear
  | Wishlist_addItem id_arg
  | Wishlist_removeItem id_arg
  | Wishlist_checkItem id_arg
  | Wishlist_moveToCart
  | Wishlist_count

datatype payment_methods_op =
    PaymentMethods_list
  | PaymentMethods_add
  | PaymentMethods_getById id_arg
  | PaymentMethods_update id_arg
  | PaymentMethods_delete id_arg
  | PaymentMethods_setDefault id_arg

datatype payments_op =
    Payments_process
  | Payments_transactions
  | Payments_getTransaction id_arg
  | Payments_refund
  | Payments_admin_transactions
  | Payments_admin_statistics

datatype coupons_op =
    Coupons_validate string
  | Coupons_admin_list
  | Coupons_admin_create
  | Coupons_admin_update id_arg
  | Coupons_admin_delete id_arg
  | Coupons_admin_usage id_arg

datatype session_op = Session_get

datatype operation =
    Users users_op
  | Products products_op
  | Cart cart_op
  | Orders orders_op
  | Profile profile_op
  | Reviews reviews_op
  | Wishlist wishlist_op
  | PaymentMethods payment_methods_op
  | Payments payments_op
  | Coupons coupons_op
  | Session session_op

section \<open>The object-literal variant (littleBugShopEnpoints.ts and its caller)\<close>

text \<open>
  \<open>createLittleBugShopEndpoints\<close> builds the nested object of URL strings and URL
  functions from the callback \<open>buildUrl\<close>. The object is modelled by its lookup: the
  value of a leaf for a string leaf, the result of the call for a function leaf.
\<close>

fun createLittleBugShopEndpoints :: "(string \<Rightarrow> string) \<Rightarrow> operation \<Rightarrow> string" where
  "createLittleBugShopEndpoints buildUrl (Users Users_register) = buildUrl ''/Users/register''"
| "createLittleBugShopEndpoints buildUrl (Users Users_login) = buildUrl ''/Users/login''"
| "createLittleBugShopEndpoints buildUrl (Users Users_logout) = buildUrl ''/Users/logout''"
| "createLittleBugShopEndpoints buildUrl (Users (Users_getById id')) = buildUrl (''/Users/'' @ toString id')"
| "createLittleBugShopEndpoints buildUrl (Users Users_admin_users) = buildUrl ''/Users/admin/users''"
| "createLittleBugShopEndpoints buildUrl (Users (Users_admin_getUserById id')) = buildUrl (''/Users/admin/users/'' @ toString id')"
| "createLittleBugShopEndpoints buildUrl (Users (Users_admin_updateUser id')) = buildUrl (''/Users/admin/users/'' @ toString id')"
| "createLittleBugShopEndpoints buildUrl (Users (Users_admin_resetPassword id')) = buildUrl (''/Users/admin/users/'' @ toString id' @ ''/reset-password'')"
| "createLittleBugShopEndpoints buildUrl (Products Products_list) = buildUrl ''/Products''"
| "createLittleBugShopEndpoints buildUrl (Products Products_create) = buildUrl ''/Products''"
| "createLittleBugShopEndpoints buildUrl (Products (Products_getById id')) = buildUrl (''/Products/'' @ toString id')"
| "createLittleBugShopEndpoints buildUrl (Products (Products_update id')) = buildUrl (''/Products/'' @ toString id')"
| "createLittleBugShopEndpoints buildUrl (Products (Products_delete id')) = buildUrl (''/Products/'' @ toString id')"
| "createLittleBugShopEndpoints buildUrl (Products (Products_availability id')) = buildUrl (''/Products/'' @ toString id' @ ''/availability'')"
| "createLittleBugShopEndpoints buildUrl (Products (Products_stock id')) = buildUrl (''/Products/'' @ toString id' @ ''/stock'')"
| "createLittleBugShopEndpoints buildUrl (Products (Products_increaseStock id')) = buildUrl (''/Products/'' @ toString id' @ ''/stock/increase'')"
| "createLittleBugShopEndpoints buildUrl (Products (Products_decreaseStock id')) = buildUrl (''/Products/'' @ toString id' @ ''/stock/decrease'')"
| "createLittleBugShopEndpoints buildUrl (Cart Cart_get) = buildUrl ''/Cart''"
| "createLittleBugShopEndpoints buildUrl (Cart Cart_delete) = buildUrl ''/Cart''"
| "createLittleBugShopEndpoints buildUrl (Cart Cart_addItem) = buildUrl ''/Cart/items''"
| "createLittleBugShopEndpoints buildUrl (Cart (Cart_updateItem itemId)) = buildUrl (''/Cart/items/'' @ toString itemId)"
| "createLittleBugShopEndpoints buildUrl (Cart (Cart_removeItem itemId)) = buildUrl (''/Cart/items/'' @ toString itemId)"
| "createLittleBugShopEndpoints buildUrl (Cart Cart_checkout) = buildUrl ''/Cart/checkout''"
| "createLittleBugShopEndpoints buildUrl (Cart Cart_applyCoupon) = buildUrl ''/Cart/apply-coupon''"
| "createLittleBugShopEndpoints buildUrl (Cart Cart_removeCoupon) = buildUrl ''/Cart/remove-coupon''"
| "createLittleBugShopEndpoints buildUrl (Orders Orders_create) = buildUrl ''/Orders/create''"
| "createLittleBugShopEndpoints buildUrl (Orders Orders_place) = buildUrl ''/Orders/place''"
| "createLittleBugShopEndpoints buildUrl (Orders Orders_list) = buildUrl ''/Orders''"
| "createLittleBugShopEndpoints buildUrl (Orders Orders_myOrders) = buildUrl ''/Orders/my-orders''"
| "createLittleBugShopEndpoints buildUrl (Orders (Orders_getById id')) = buildUrl (''/Orders/'' @ toString id')"
| "createLittleBugShopEndpoints buildUrl (Orders (Orders_delete id')) = buildUrl (''/Orders/'' @ toString id')"
| "createLittleBugShopEndpoints buildUrl (Orders (Orders_updateStatus id')) = buildUrl (''/Orders/'' @ toString id' @ ''/status'')"
| "createLittleBugShopEndpoints buildUrl (Orders Orders_pending) = buildUrl ''/Orders/pending''"
| "createLittleBugShopEndpoints buildUrl (Orders (Orders_cancel id')) = buildUrl (''/Orders/'' @ toString id' @ ''/cancel'')"
| "createLittleBugShopEndpoints buildUrl (Profile Profile_get) = buildUrl ''/users/profile''"
| "createLittleBugShopEndpoints buildUrl (Profile Profile_update) = buildUrl ''/users/profile''"
| "createLittleBugShopEndpoints buildUrl (Profile Profile_addresses_add) = buildUrl ''/users/profile/addresses''"
| "createLittleBugShopEndpoints buildUrl (Profile (Profile_addresses_update id')) = buildUrl (''/users/profile/addresses/'' @ toString id')"
| "createLittleBugShopEndpoints buildUrl (Profile (Profile_addresses_delete id')) = buildUrl (''/users/profile/addresses/'' @ toString id')"
| "createLittleBugShopEndpoints buildUrl (Profile (Profile_addresses_setDefault id')) = buildUrl (''/users/profile/addresses/'' @ toString id' @ ''/set-default'')"
| "createLittleBugShopEndpoints buildUrl (Profile Profile_changePassword) = buildUrl ''/users/profile/change-password''"
| "createLittleBugShopEndpoints buildUrl (Reviews (Reviews_create productId)) = buildUrl (''/products/'' @ toString productId @ ''/Reviews'')"
| "createLittleBugShopEndpoints buildUrl (Reviews (Reviews_list productId)) = buildUrl (''/products/'' @ toString productId @ ''/Reviews'')"
| "createLittleBugShopEndpoints buildUrl (Reviews (Reviews_getById productId reviewId)) = buildUrl (''/products/'' @ toString productId @ ''/Reviews/'' @ toString reviewId)"
| "createLittleBugShopEndpoints buildUrl (Reviews (Reviews_delete productId reviewId)) = buildUrl (''/products/'' @ toString productId @ ''/Reviews/'' @ toString reviewId)"
| "createLittleBugShopEndpoints buildUrl (Reviews (Reviews_myReview productId)) = buildUrl (''/products/'' @ toString productId @ ''/my-review'')"
| "createLittleBugShopEndpoints buildUrl (Reviews (Reviews_markHelpful reviewId)) = buildUrl (''/reviews/'' @ toString reviewId @ ''/helpful'')"
| "createLittleBugShopEndpoints buildUrl (Reviews (Reviews_moderate productId reviewId)) = buildUrl (''/products/'' @ toString productId @ ''/Reviews/'' @ toString reviewId @ ''/moderate'')"
| "createLittleBugShopEndpoints buildUrl (Reviews Reviews_admin_list) = buildUrl ''/admin/reviews''"
| "createLittleBugShopEndpoints buildUrl (Wishlist Wishlist_get) = buildUrl ''/Wishlist''"
| "createLittleBugShopEndpoints buildUrl (Wishlist Wishlist_clear) = buildUrl ''/Wishlist''"
| "createLittleBugShopEndpoints buildUrl (Wishlist (Wishlist_addItem productId)) = buildUrl (''/Wishlist/items/'' @ toString productId)"
| "createLittleBugShopEndpoints buildUrl (Wishlist (Wishlist_removeItem productId)) = buildUrl (''/Wishlist/items/'' @ toString productId)"
| "createLittleBugShopEndpoints buildUrl (Wishlist (Wishlist_checkItem productId)) = buildUrl (''/Wishlist/check/'' @ toString productId)"
| "createLittleBugShopEndpoints buildUrl (Wishlist Wishlist_moveToCart) = buildUrl ''/Wishlist/move-to-cart''"
| "createLittleBugShopEndpoints buildUrl (Wishlist Wishlist_count) = buildUrl ''/Wishlist/count''"
| "createLittleBugShopEndpoints buildUrl (PaymentMethods PaymentMethods_list) = buildUrl ''/payment-methods''"
| "createLittleBugShopEndpoints buildUrl (PaymentMethods PaymentMethods_add) = buildUrl ''/payment-methods''"
| "createLittleBugShopEndpoints buildUrl (PaymentMethods (PaymentMethods_getById id')) = buildUrl (''/payment-methods/'' @ toString id')"
| "createLittleBugShopEndpoints buildUrl (PaymentMethods (PaymentMethods_update id')) = buildUrl (''/payment-methods/'' @ toString id')"
| "createLittleBugShopEndpoints buildUrl (PaymentMethods (PaymentMethods_delete id')) = buildUrl (''/payment-methods/'' @ toString id')"
| "createLittleBugShopEndpoints buildUrl (PaymentMethods (PaymentMethods_setDefault id')) = buildUrl (''/payment-methods/'' @ toString id' @ ''/set-default'')"
| "createLittleBugShopEndpoints buildUrl (Payments Payments_process) = buildUrl ''/payments/process''"
| "createLittleBugShopEndpoints buildUrl (Payments Payments_transactions) = buildUrl ''/payments/transactions''"
| "createLittleBugShopEndpoints buildUrl (Payments (Payments_getTransaction id')) = buildUrl (''/payments/transactions/'' @ toString id')"
| "createLittleBugShopEndpoints buildUrl (Payments Payments_refund) = buildUrl ''/payments/refund''"
| "createLittleBugShopEndpoints buildUrl (Payments Payments_admin_transactions) = buildUrl ''/payments/admin/transactions''"
| "createLittleBugShopEndpoints buildUrl (Payments Payments_admin_statistics) = buildUrl ''/payments/admin/statistics''"
| "createLittleBugShopEndpoints buildUrl (Coupons (Coupons_validate code)) = buildUrl (''/Coupons/validate/'' @ code)"
| "createLittleBugShopEndpoints buildUrl (Coupons Coupons_admin_list) = buildUrl ''/Coupons/admin/coupons''"
| "createLittleBugShopEndpoints buildUrl (Coupons Coupons_admin_create) = buildUrl ''/Coupons/admin/coupons''"
| "createLittleBugShopEndpoints buildUrl (Coupons (Coupons_admin_update id')) = buildUrl (''/Coupons/admin/coupons/'' @ toString id')"
| "createLittleBugShopEndpoints buildUrl (Coupons (Coupons_admin_delete id')) = buildUrl (''/Coupons/admin/coupons/'' @ toString id')"
| "createLittleBugShopEndpoints buildUrl (Coupons (Coupons_admin_usage id')) = buildUrl (''/Coupons/admin/coupons/'' @ toString id' @ ''/usage'')"
| "createLittleBugShopEndpoints buildUrl (Session Session_get) = buildUrl ''/Session''"

text \<open>The callback that \<open>LittleBugShop\<close> passes: \<open>(path) => `${baseUrl}/api${path}`\<close>.\<close>

definition LittleBugShop_buildUrl :: "string \<Rightarrow> string \<Rightarrow> string" where
  "LittleBugShop_buildUrl baseUrl path = baseUrl @ ''/api'' @ path"

record LittleBugShop_object =
  BaseUrl :: string
  Controllers :: "operation \<Rightarrow> string"

text \<open>
  \<open>LittleBugShop()\<close> of the object-literal variant: it has no parameter and reads
  \<open>process.env.BASE_URL\<close> through a template literal.
\<close>

definition LittleBugShop_eager :: "env \<Rightarrow> LittleBugShop_object" where
  "LittleBugShop_eager process_env =
     (let baseUrl = interpolate (process_env ''BASE_URL'')
      in \<lparr>BaseUrl = baseUrl,
          Controllers = createLittleBugShopEndpoints (LittleBugShop_buildUrl baseUrl)\<rparr>)"

section \<open>The class-based variant (the UrlBuilder module)\<close>

text \<open>
  Each endpoint class has the single private field \<open>basePath\<close>, set by its
  constructor; an object of the class is modelled by the value of that field. The
  \<open>_new\<close> function is the constructor and the \<open>_call\<close> function runs a method (or a
  member of the nested \<open>admin\<close> / \<open>addresses\<close> object) on the object.
\<close>

definition UsersEndpoints_new :: "string \<Rightarrow> string" where
  "UsersEndpoints_new basePath = basePath @ ''/Users''"

fun UsersEndpoints_call :: "string \<Rightarrow> users_op \<Rightarrow> string" where
  "UsersEndpoints_call this_basePath Users_register = this_basePath @ ''/register''"
| "UsersEndpoints_call this_basePath Users_login = this_basePath @ ''/login''"
| "UsersEndpoints_call this_basePath Users_logout = this_basePath @ ''/logout''"
| "UsersEndpoints_call this_basePath (Users_getById id') = this_basePath @ ''/'' @ toString id'"
| "UsersEndpoints_call this_basePath Users_admin_users = this_basePath @ ''/admin/users''"
| "UsersEndpoints_call this_basePath (Users_admin_getUserById id') = this_basePath @ ''/admin/users/'' @ toString id'"
| "UsersEndpoints_call this_basePath (Users_admin_updateUser id') = this_basePath @ ''/admin/users/'' @ toString id'"
| "UsersEndpoints_call this_basePath (Users_admin_resetPassword id') = this_basePath @ ''/admin/users/'' @ toString id' @ ''/reset-password''"

definition ProductsEndpoints_new :: "string \<Rightarrow> string" where
  "ProductsEndpoints_new basePath = basePath @ ''/Products''"

fun ProductsEndpoints_call :: "string \<Rightarrow> products_op \<Rightarrow> string" where
  "ProductsEndpoints_call this_basePath Products_list = this_basePath"
| "ProductsEndpoints_call this_basePath Products_create = this_basePath"
| "ProductsEndpoints_call this_basePath (Products_getById id') = this_basePath @ ''/'' @ toString id'"
| "ProductsEndpoints_call this_basePath (Products_update id') = this_basePath @ ''/'' @ toString id'"
| "ProductsEndpoints_call this_basePath (Products_delete id') = this_basePath @ ''/'' @ toString id'"
| "ProductsEndpoints_call this_basePath (Products_availability id') = this_basePath @ ''/'' @ toString id' @ ''/availability''"
| "ProductsEndpoints_call this_basePath (Products_stock id') = this_basePath @ ''/'' @ toString id' @ ''/stock''"
| "ProductsEndpoints_call this_basePath (Products_increaseStock id') = this_basePath @ ''/'' @ toString id' @ ''/stock/increase''"
| "ProductsEndpoints_call this_basePath (Products_decreaseStock id') = this_basePath @ ''/'' @ toString id' @ ''/stock/decrease''"

definition CartEndpoints_new :: "string \<Rightarrow> string" where
  "CartEndpoints_new basePath = basePath @ ''/Cart''"

fun CartEndpoints_call :: "string \<Rightarrow> cart_op \<Rightarrow> string" where
  "CartEndpoints_call this_basePath Cart_get = this_basePath"
| "CartEndpoints_call this_basePath Cart_delete = this_basePath"
| "CartEndpoints_call this_basePath Cart_addItem = this_basePath @ ''/items''"
| "CartEndpoints_call this_basePath (Cart_updateItem itemId) = this_basePath @ ''/items/'' @ toString itemId"
| "CartEndpoints_call this_basePath (Cart_removeItem itemId) = this_basePath @ ''/items/'' @ toString itemId"
| "CartEndpoints_call this_basePath Cart_checkout = this_basePath @ ''/checkout''"
| "CartEndpoints_call this_basePath Cart_applyCoupon = this_basePath @ ''/apply-coupon''"
| "CartEndpoints_call this_basePath Cart_removeCoupon = this_basePath @ ''/remove-coupon''"

definition OrdersEndpoints_new :: "string \<Rightarrow> string" where
  "OrdersEndpoints_new basePath = basePath @ ''/Orders''"

fun OrdersEndpoints_call :: "string \<Rightarrow> orders_op \<Rightarrow> string" where
  "OrdersEndpoints_call this_basePath Orders_create = this_basePath @ ''/create''"
| "OrdersEndpoints_call this_basePath Orders_place = this_basePath @ ''/place''"
| "OrdersEndpoints_call this_basePath Orders_list = this_basePath"
| "OrdersEndpoints_call this_basePath Orders_myOrders = this_basePath @ ''/my-orders''"
| "OrdersEndpoints_call this_basePath (Orders_getById id') = this_basePath @ ''/'' @ toString id'"
| "OrdersEndpoints_call this_basePath (Orders_delete id') = this_basePath @ ''/'' @ toString id'"
| "OrdersEndpoints_call this_basePath (Orders_updateStatus id') = this_basePath @ ''/'' @ toString id' @ ''/status''"
| "OrdersEndpoints_call this_basePath Orders_pending = this_basePath @ ''/pending''"
| "OrdersEndpoints_call this_basePath (Orders_cancel id') = this_basePath @ ''/'' @ toString id' @ ''/cancel''"

definition ProfileEndpoints_new :: "string \<Rightarrow> string" where
  "ProfileEndpoints_new basePath = basePath @ ''/users/profile''"

fun ProfileEndpoints_call :: "string \<Rightarrow> profile_op \<Rightarrow> string" where
  "ProfileEndpoints_call this_basePath Profile_get = this_basePath"
| "ProfileEndpoints_call this_basePath Profile_update = this_basePath"
| "ProfileEndpoints_call this_basePath Profile_addresses_add = this_basePath @ ''/addresses''"
| "ProfileEndpoints_call this_basePath (Profile_addresses_update id') = this_basePath @ ''/addresses/'' @ toString id'"
| "ProfileEndpoints_call this_basePath (Profile_addresses_delete id') = this_basePath @ ''/addresses/'' @ toString id'"
| "ProfileEndpoints_call this_basePath (Profile_addresses_setDefault id') = this_basePath @ ''/addresses/'' @ toString id' @ ''/set-default''"
| "ProfileEndpoints_call this_basePath Profile_changePassword = this_basePath @ ''/change-password''"

definition ReviewsEndpoints_new :: "string \<Rightarrow> string" where
  "ReviewsEndpoints_new basePath = basePath"

fun ReviewsEndpoints_call :: "string \<Rightarrow> reviews_op \<Rightarrow> string" where
  "ReviewsEndpoints_call this_basePath (Reviews_create productId) = this_basePath @ ''/products/'' @ toString productId @ ''/Reviews''"
| "ReviewsEndpoints_call this_basePath (Reviews_list productId) = this_basePath @ ''/products/'' @ toString productId @ ''/Reviews''"
| "ReviewsEndpoints_call this_basePath (Reviews_getById productId reviewId) = this_basePath @ ''/products/'' @ toString productId @ ''/Reviews/'' @ toString reviewId"
| "ReviewsEndpoints_call this_basePath (Reviews_delete productId reviewId) = this_basePath @ ''/products/'' @ toString productId @ ''/Reviews/'' @ toString reviewId"
| "ReviewsEndpoints_call this_basePath (Reviews_myReview productId) = this_basePath @ ''/products/'' @ toString productId @ ''/my-review''"
| "ReviewsEndpoints_call this_basePath (Reviews_markHelpful reviewId) = this_basePath @ ''/reviews/'' @ toString reviewId @ ''/helpful''"
| "ReviewsEndpoints_call this_basePath (Reviews_moderate productId reviewId) = this_basePath @ ''/products/'' @ toString productId @ ''/Reviews/'' @ toString reviewId @ ''/moderate''"
| "ReviewsEndpoints_call this_basePath Reviews_admin_list = this_basePath @ ''/admin/reviews''"

definition WishlistEndpoints_new :: "string \<Rightarrow> string" where
  "WishlistEndpoints_new basePath = basePath @ ''/Wishlist''"

fun WishlistEndpoints_call :: "string \<Rightarrow> wishlist_op \<Rightarrow> string" where
  "WishlistEndpoints_call this_basePath Wishlist_get = this_basePath"
| "WishlistEndpoints_call this_basePath Wishlist_clear = this_basePath"
| "WishlistEndpoints_call this_basePath (Wishlist_addItem productId) = this_basePath @ ''/items/'' @ toString productId"
| "WishlistEndpoints_call this_basePath (Wishlist_removeItem productId) = this_basePath @ ''/items/'' @ toString productId"
| "WishlistEndpoints_call this_basePath (Wishlist_checkItem productId) = this_basePath @ ''/check/'' @ toString productId"
| "WishlistEndpoints_call this_basePath Wishlist_moveToCart = this_basePath @ ''/move-to-cart''"
| "WishlistEndpoints_call this_basePath Wishlist_count = this_basePath @ ''/count''"

definition PaymentMethodsEndpoints_new :: "string \<Rightarrow> string" where
  "PaymentMethodsEndpoints_new basePath = basePath @ ''/payment-methods''"

fun PaymentMethodsEndpoints_call :: "string \<Rightarrow> payment_methods_op \<Rightarrow> string" where
  "PaymentMethodsEndpoints_call this_basePath PaymentMethods_list = this_basePath"
| "PaymentMethodsEndpoints_call this_basePath PaymentMethods_add = this_basePath"
| "PaymentMethodsEndpoints_call this_basePath (PaymentMethods_getById id') = this_basePath @ ''/'' @ toString id'"
| "PaymentMethodsEndpoints_call this_basePath (PaymentMethods_update id') = this_basePath @ ''/'' @ toString id'"
| "PaymentMethodsEndpoints_call this_basePath (PaymentMethods_delete id') = this_basePath @ ''/'' @ toString id'"
| "PaymentMethodsEndpoints_call this_basePath (PaymentMethods_setDefault id') = this_basePath @ ''/'' @ toString id' @ ''/set-default''"

definition PaymentsEndpoints_new :: "string \<Rightarrow> string" where
  "PaymentsEndpoints_new basePath = basePath @ ''/payments''"

fun PaymentsEndpoints_call :: "string \<Rightarrow> payments_op \<Rightarrow> string" where
  "PaymentsEndpoints_call this_basePath Payments_process = this_basePath @ ''/process''"
| "PaymentsEndpoints_call this_basePath Payments_transactions = this_basePath @ ''/transactions''"
| "PaymentsEndpoints_call this_basePath (Payments_getTransaction id') = this_basePath @ ''/transactions/'' @ toString id'"
| "PaymentsEndpoints_call this_basePath Payments_refund = this_basePath @ ''/refund''"
| "PaymentsEndpoints_call this_basePath Payments_admin_transactions = this_basePath @ ''/admin/transactions''"
| "PaymentsEndpoints_call this_basePath Payments_admin_statistics = this_basePath @ ''/admin/statistics''"

definition CouponsEndpoints_new :: "string \<Rightarrow> string" where
  "CouponsEndpoints_new basePath = basePath @ ''/Coupons''"

fun CouponsEndpoints_call :: "string \<Rightarrow> coupons_op \<Rightarrow> string" where
  "CouponsEndpoints_call this_basePath (Coupons_validate code) = this_basePath @ ''/validate/'' @ code"
| "CouponsEndpoints_call this_basePath Coupons_admin_list = this_basePath @ ''/admin/coupons''"
| "CouponsEndpoints_call this_basePath Coupons_admin_create = this_basePath @ ''/admin/coupons''"
| "CouponsEndpoints_call this_basePath (Coupons_admin_update id') = this_basePath @ ''/admin/coupons/'' @ toString id'"
| "CouponsEndpoints_call this_basePath (Coupons_admin_delete id') = this_basePath @ ''/admin/coupons/'' @ toString id'"
| "CouponsEndpoints_call this_basePath (Coupons_admin_usage id') = this_basePath @ ''/admin/coupons/'' @ toString id' @ ''/usage''"

definition SessionEndpoints_new :: "string \<Rightarrow> string" where
  "SessionEndpoints_new basePath = basePath @ ''/Session''"

fun SessionEndpoints_call :: "string \<Rightarrow> session_op \<Rightarrow> string" where
  "SessionEndpoints_call this_basePath Session_get = this_basePath"

text \<open>
  The configuration module: \<open>baseUrl: process.env.BASE_URL || 'http://localhost:5052'\<close>,
  the only field of \<open>config\<close> that the URL builder reads.
\<close>

definition config_baseUrl :: "env \<Rightarrow> string" where
  "config_baseUrl process_env = or_else (process_env ''BASE_URL'') ''http://localhost:5052''"

record UrlBuilder =
  baseUrl :: string

text \<open>The constructor: \<open>this.baseUrl = baseUrl || config.baseUrl\<close>.\<close>

definition UrlBuilder_new :: "env \<Rightarrow> string option \<Rightarrow> UrlBuilder" where
  "UrlBuilder_new process_env baseUrl_arg =
     \<lparr>baseUrl = or_else baseUrl_arg (config_baseUrl process_env)\<rparr>"

text \<open>
  The getters \<open>Users\<close>, \<open>Products\<close>, ...: each access builds a new endpoint object
  on \<open>`${this.baseUrl}/api`\<close>. \<open>UrlBuilder_get this op\<close> is the getter of the group
  of \<open>op\<close> followed by the method call.
\<close>

fun UrlBuilder_get :: "UrlBuilder \<Rightarrow> operation \<Rightarrow> string" where
  "UrlBuilder_get this (Users m) = UsersEndpoints_call (UsersEndpoints_new (baseUrl this @ ''/api'')) m"
| "UrlBuilder_get this (Products m) = ProductsEndpoints_call (ProductsEndpoints_new (baseUrl this @ ''/api'')) m"
| "UrlBuilder_get this (Cart m) = CartEndpoints_call (CartEndpoints_new (baseUrl this @ ''/api'')) m"
| "UrlBuilder_get this (Orders m) = OrdersEndpoints_call (OrdersEndpoints_new (baseUrl this @ ''/api'')) m"
| "UrlBuilder_get this (Profile m) = ProfileEndpoints_call (ProfileEndpoints_new (baseUrl this @ ''/api'')) m"
| "UrlBuilder_get this (Reviews m) = ReviewsEndpoints_call (ReviewsEndpoints_new (baseUrl this @ ''/api'')) m"
| "UrlBuilder_get this (Wishlist m) = WishlistEndpoints_call (WishlistEndpoints_new (baseUrl this @ ''/api'')) m"
| "UrlBuilder_get this (PaymentMethods m) = PaymentMethodsEndpoints_call (PaymentMethodsEndpoints_new (baseUrl this @ ''/api'')) m"
| "UrlBuilder_get this (Payments m) = PaymentsEndpoints_call (PaymentsEndpoints_new (baseUrl this @ ''/api'')) m"
| "UrlBuilder_get this (Coupons m) = CouponsEndpoints_call (CouponsEndpoints_new (baseUrl this @ ''/api'')) m"
| "UrlBuilder_get this (Session m) = SessionEndpoints_call (SessionEndpoints_new (baseUrl this @ ''/api'')) m"

text \<open>\<open>LittleBugShop(baseUrl?)\<close> of the class-based variant.\<close>

definition LittleBugShop_lazy :: "env \<Rightarrow> string option \<Rightarrow> UrlBuilder" where
  "LittleBugShop_lazy process_env baseUrl_arg = UrlBuilder_new process_env baseUrl_arg"

section \<open>Path templates and call arguments\<close>

text \<open>
  The path of an operation is what the object-literal variant hands to its callback:
  running \<open>createLittleBugShopEndpoints\<close> with the identity callback returns it.
\<close>

definition path_of :: "operation \<Rightarrow> string" where
  "path_of op = createLittleBugShopEndpoints (\<lambda>path. path) op"

text \<open>
  The string forms of the arguments of a call, in the order they are passed; used to
  state where a question mark in a URL can come from.
\<close>

fun users_args :: "users_op \<Rightarrow> string list" where
  "users_args (Users_getById id') = [toString id']"
| "users_args (Users_admin_getUserById id') = [toString id']"
| "users_args (Users_admin_updateUser id') = [toString id']"
| "users_args (Users_admin_resetPassword id') = [toString id']"
| "users_args _ = []"

fun products_args :: "products_op \<Rightarrow> string list" where
  "products_args (Products_getById id') = [toString id']"
| "products_args (Products_update id') = [toString id']"
| "products_args (Products_delete id') = [toString id']"
| "products_args (Products_availability id') = [toString id']"
| "products_args (Products_stock id') = [toString id']"
| "products_args (Products_increaseStock id') = [toString id']"
| "products_args (Products_decreaseStock id') = [toString id']"
| "products_args _ = []"

fun cart_args :: "cart_op \<Rightarrow> string list" where
  "cart_args (Cart_updateItem itemId) = [toString itemId]"
| "cart_args (Cart_removeItem itemId) = [toString itemId]"
| "cart_args _ = []"

fun orders_args :: "orders_op \<Rightarrow> string list" where
  "orders_args (Orders_getById id') = [toString id']"
| "orders_args (Orders_delete id') = [toString id']"
| "orders_args (Orders_updateStatus id') = [toString id']"
| "orders_args (Orders_cancel id') = [toString id']"
| "orders_args _ = []"

fun profile_args :: "profile_op \<Rightarrow> string list" where
  "profile_args (Profile_addresses_update id') = [toString id']"
| "profile_args (Profile_addresses_delete id') = [toString id']"
| "profile_args (Profile_addresses_setDefault id') = [toString id']"
| "profile_args _ = []"

fun reviews_args :: "reviews_op \<Rightarrow> string list" where
  "reviews_args (Reviews_create productId) = [toString productId]"
| "reviews_args (Reviews_list productId) = [toString productId]"
| "reviews_args (Reviews_getById productId reviewId) = [toString productId, toString reviewId]"
| "reviews_args (Reviews_delete productId reviewId) = [toString productId, toString reviewId]"
| "reviews_args (Reviews_myReview productId) = [toString productId]"
| "reviews_args (Reviews_markHelpful reviewId) = [toString reviewId]"
| "reviews_args (Reviews_moderate productId reviewId) = [toString productId, toString reviewId]"
| "reviews_args Reviews_admin_list = []"

fun wishlist_args :: "wishlist_op \<Rightarrow> string list" where
  "wishlist_args (Wishlist_addItem productId) = [toString productId]"
| "wishlist_args (Wishlist_removeItem productId) = [toString productId]"
| "wishlist_args (Wishlist_checkItem productId) = [toString productId]"
| "wishlist_args _ = []"

fun payment_methods_args :: "payment_methods_op \<Rightarrow> string list" where
  "payment_methods_args (PaymentMethods_getById id') = [toString id']"
| "payment_methods_args (PaymentMethods_update id') = [toString id']"
| "payment_methods_args (PaymentMethods_delete id') = [toString id']"
| "payment_methods_args (PaymentMethods_setDefault id') = [toString id']"
| "payment_methods_args _ = []"

fun payments_args :: "payments_op \<Rightarrow> string list" where
  "payments_args (Payments_getTransaction id') = [toString id']"
| "payments_args _ = []"

fun coupons_args :: "coupons_op \<Rightarrow> string list" where
  "coupons_args (Coupons_validate code) = [code]"
| "coupons_args (Coupons_admin_update id') = [toString id']"
| "coupons_args (Coupons_admin_delete id') = [toString id']"
| "coupons_args (Coupons_admin_usage id') = [toString id']"
| "coupons_args _ = []"

fun op_args :: "operation \<Rightarrow> string list" where
  "op_args (Users m) = users_args m"
| "op_args (Products m) = products_args m"
| "op_args (Cart m) = cart_args m"
| "op_args (Orders m) = orders_args m"
| "op_args (Profile m) = profile_args m"
| "op_args (Reviews m) = reviews_args m"
| "op_args (Wishlist m) = wishlist_args m"
| "op_args (PaymentMethods m) = payment_methods_args m"
| "op_args (Payments m) = payments_args m"
| "op_args (Coupons m) = coupons_args m"
| "op_args (Session m) = []"

text \<open>
  The string form of the argument that ends the path of a call, when the path template
  ends with a parameter; \<open>None\<close> when the template ends with a literal segment.
\<close>

fun users_final_arg :: "users_op \<Rightarrow> string option" where
  "users_final_arg (Users_getById id') = Some (toString id')"
| "users_final_arg (Users_admin_getUserById id') = Some (toString id')"
| "users_final_arg (Users_admin_updateUser id') = Some (toString id')"
| "users_final_arg _ = None"

fun products_final_arg :: "products_op \<Rightarrow> string option" where
  "products_final_arg (Products_getById id') = Some (toString id')"
| "products_final_arg (Products_update id') = Some (toString id')"
| "products_final_arg (Products_delete id') = Some (toString id')"
| "products_final_arg _ = None"

fun cart_final_arg :: "cart_op \<Rightarrow> string option" where
  "cart_final_arg (Cart_updateItem itemId) = Some (toString itemId)"
| "cart_final_arg (Cart_removeItem itemId) = Some (toString itemId)"
| "cart_final_arg _ = None"

fun orders_final_arg :: "orders_op \<Rightarrow> string option" where
  "orders_final_arg (Orders_getById id') = Some (toString id')"
| "orders_final_arg (Orders_delete id') = Some (toString id')"
| "orders_final_arg _ = None"

fun profile_final_arg :: "profile_op \<Rightarrow> string option" where
  "profile_final_arg (Profile_addresses_update id') = Some (toString id')"
| "profile_final_arg (Profile_addresses_delete id') = Some (toString id')"
| "profile_final_arg _ = None"

fun reviews_final_arg :: "reviews_op \<Rightarrow> string option" where
  "reviews_final_arg (Reviews_getById _ reviewId) = Some (toString reviewId)"
| "reviews_final_arg (Reviews_delete _ reviewId) = Some (toString reviewId)"
| "reviews_final_arg _ = None"

fun wishlist_final_arg :: "wishlist_op \<Rightarrow> string option" where
  "wishlist_final_arg (Wishlist_addItem productId) = Some (toString productId)"
| "wishlist_final_arg (Wishlist_removeItem productId) = Some (toString productId)"
| "wishlist_final_arg (Wishlist_checkItem productId) = Some (toString productId)"
| "wishlist_final_arg _ = None"

fun payment_methods_final_arg :: "payment_methods_op \<Rightarrow> string option" where
  "payment_methods_final_arg (PaymentMethods_getById id') = Some (toString id')"
| "payment_methods_final_arg (PaymentMethods_update id') = Some (toString id')"
| "payment_methods_final_arg (PaymentMethods_delete id') = Some (toString id')"
| "payment_methods_final_arg _ = None"

fun payments_final_arg :: "payments_op \<Rightarrow> string option" where
  "payments_final_arg (Payments_getTransaction id') = Some (toString id')"
| "payments_final_arg _ = None"

fun coupons_final_arg :: "coupons_op \<Rightarrow> string option" where
  "coupons_final_arg (Coupons_validate code) = Some (code)"
| "coupons_final_arg (Coupons_admin_update id') = Some (toString id')"
| "coupons_final_arg (Coupons_admin_delete id') = Some (toString id')"
| "coupons_final_arg _ = None"

fun final_arg :: "operation \<Rightarrow> string option" where
  "final_arg (Users m) = users_final_arg m"
| "final_arg (Products m) = products_final_arg m"
| "final_arg (Cart m) = cart_final_arg m"
| "final_arg (Orders m) = orders_final_arg m"
| "final_arg (Profile m) = profile_final_arg m"
| "final_arg (Reviews m) = reviews_final_arg m"
| "final_arg (Wishlist m) = wishlist_final_arg m"
| "final_arg (PaymentMethods m) = payment_methods_final_arg m"
| "final_arg (Payments m) = payments_final_arg m"
| "final_arg (Coupons m) = coupons_final_arg m"
| "final_arg (Session m) = None"

section \<open>Basic facts\<close>

lemmas endpoints_new_defs =
  UsersEndpoints_new_def ProductsEndpoints_new_def CartEndpoints_new_def
  OrdersEndpoints_new_def ProfileEndpoints_new_def ReviewsEndpoints_new_def
  WishlistEndpoints_new_def PaymentMethodsEndpoints_new_def PaymentsEndpoints_new_def
  CouponsEndpoints_new_def SessionEndpoints_new_def

text \<open>The object-literal variant applies its callback once, to the path.\<close>

lemma create_callback:
  "createLittleBugShopEndpoints f op = f (path_of op)"
  unfolding path_of_def
  apply (cases op)
  subgoal for m by (cases m) simp_all
  subgoal for m by (cases m) simp_all
  subgoal for m by (cases m) simp_all
  subgoal for m by (cases m) simp_all
  subgoal for m by (cases m) simp_all
  subgoal for m by (cases m) simp_all
  subgoal for m by (cases m) simp_all
  subgoal for m by (cases m) simp_all
  subgoal for m by (cases m) simp_all
  subgoal for m by (cases m) simp_all
  subgoal for m by (cases m) simp_all
  done

text \<open>The class-based variant assembles the same path from its pieces.\<close>

lemma UrlBuilder_get_path:
  "UrlBuilder_get u op = baseUrl u @ ''/api'' @ path_of op"
  unfolding path_of_def
  apply (cases op)
  subgoal for m by (cases m) (simp_all add: endpoints_new_defs)
  subgoal for m by (cases m) (simp_all add: endpoints_new_defs)
  subgoal for m by (cases m) (simp_all add: endpoints_new_defs)
  subgoal for m by (cases m) (simp_all add: endpoints_new_defs)
  subgoal for m by (cases m) (simp_all add: endpoints_new_defs)
  subgoal for m by (cases m) (simp_all add: endpoints_new_defs)
  subgoal for m by (cases m) (simp_all add: endpoints_new_defs)
  subgoal for m by (cases m) (simp_all add: endpoints_new_defs)
  subgoal for m by (cases m) (simp_all add: endpoints_new_defs)
  subgoal for m by (cases m) (simp_all add: endpoints_new_defs)
  subgoal for m by (cases m) (simp_all add: endpoints_new_defs)
  done

lemma Controllers_path:
  "Controllers (LittleBugShop_eager env) op =
     BaseUrl (LittleBugShop_eager env) @ ''/api'' @ path_of op"
  by (simp add: LittleBugShop_eager_def Let_def LittleBugShop_buildUrl_def
      create_callback [of "LittleBugShop_buildUrl b" for b])

lemma BaseUrl_eager:
  "BaseUrl (LittleBugShop_eager env) = interpolate (env ''BASE_URL'')"
  by (simp add: LittleBugShop_eager_def Let_def)

lemma baseUrl_lazy:
  "baseUrl (LittleBugShop_lazy env a) =
     or_else a (or_else (env ''BASE_URL'') ''http://localhost:5052'')"
  by (simp add: LittleBugShop_lazy_def UrlBuilder_new_def config_baseUrl_def)

text \<open>
  The class-based variant resolves the base in three steps and never ends with an empty
  one.
\<close>

lemma baseUrl_lazy_resolution:
  "baseUrl (LittleBugShop_lazy env a) =
     (case a of
        Some b \<Rightarrow> (if b \<noteq> [] then b else config_baseUrl env)
      | None \<Rightarrow> config_baseUrl env)"
  "config_baseUrl env =
     (case env ''BASE_URL'' of
        Some e \<Rightarrow> (if e \<noteq> [] then e else ''http://localhost:5052'')
      | None \<Rightarrow> ''http://localhost:5052'')"
  "baseUrl (LittleBugShop_lazy env a) \<noteq> []"
  by (simp_all add: LittleBugShop_lazy_def UrlBuilder_new_def config_baseUrl_def or_else_def
      split: option.splits)

text \<open>
  Path templates: a question mark in a path comes from an argument, and a path ends
  with a slash only through the argument in its final position.
\<close>

lemma path_of_query:
  "(CHR ''?'' \<in> set (path_of op)) = (\<exists>s \<in> set (op_args op). CHR ''?'' \<in> set s)"
  unfolding path_of_def
  apply (cases op)
  subgoal for m by (cases m) auto
  subgoal for m by (cases m) auto
  subgoal for m by (cases m) auto
  subgoal for m by (cases m) auto
  subgoal for m by (cases m) auto
  subgoal for m by (cases m) auto
  subgoal for m by (cases m) auto
  subgoal for m by (cases m) auto
  subgoal for m by (cases m) auto
  subgoal for m by (cases m) auto
  subgoal for m by (cases m) auto
  done

lemma path_of_nonempty: "path_of op \<noteq> []"
  unfolding path_of_def
  apply (cases op)
  subgoal for m by (cases m) simp_all
  subgoal for m by (cases m) simp_all
  subgoal for m by (cases m) simp_all
  subgoal for m by (cases m) simp_all
  subgoal for m by (cases m) simp_all
  subgoal for m by (cases m) simp_all
  subgoal for m by (cases m) simp_all
  subgoal for m by (cases m) simp_all
  subgoal for m by (cases m) simp_all
  subgoal for m by (cases m) simp_all
  subgoal for m by (cases m) simp_all
  done

lemma path_of_trailing_slash:
  "(last (path_of op) = CHR ''/'') =
     (case final_arg op of None \<Rightarrow> False | Some s \<Rightarrow> s = [] \<or> last s = CHR ''/'')"
  unfolding path_of_def
  apply (cases op)
  subgoal for m by (cases m) simp_all
  subgoal for m by (cases m) simp_all
  subgoal for m by (cases m) simp_all
  subgoal for m by (cases m) simp_all
  subgoal for m by (cases m) simp_all
  subgoal for m by (cases m) simp_all
  subgoal for m by (cases m) simp_all
  subgoal for m by (cases m) simp_all
  subgoal for m by (cases m) simp_all
  subgoal for m by (cases m) simp_all
  subgoal for m by (cases m) simp_all
  done

text \<open>
  \<open>nat_digits\<close> is the decimal numeral of its argument: digits only, denoting the
  argument, with no leading zero except for zero itself.
\<close>

lemma digit_value_nth: "d < 10 \<Longrightarrow> digit_value (''0123456789'' ! d) = d"
proof -
  assume "d < 10"
  then have "d \<in> {0, 1, 2, 3, 4, 5, 6, 7, 8, 9}" by auto
  then show ?thesis by (auto simp: digit_value_def)
qed

lemma nth_digit_nonzero: "0 < d \<Longrightarrow> d < 10 \<Longrightarrow> ''0123456789'' ! d \<noteq> CHR ''0''"
proof -
  assume "0 < d" "d < 10"
  then have "d \<in> {1, 2, 3, 4, 5, 6, 7, 8, 9}" by auto
  then show ?thesis by auto
qed

lemma digits_value_snoc: "digits_value (s @ [c]) = 10 * digits_value s + digit_value c"
  by (simp add: digits_value_def)

lemma digits_value_nat_digits: "digits_value (nat_digits n) = n"
proof (induction n rule: nat_digits.induct)
  case (1 n)
  show ?case
  proof (cases "n < 10")
    case True
    then show ?thesis
      by (subst nat_digits.simps) (simp add: digits_value_def digit_value_nth)
  next
    case False
    with "1.IH" show ?thesis
      by (subst nat_digits.simps) (simp add: digits_value_snoc digit_value_nth)
  qed
qed

lemma nat_digits_nonempty: "nat_digits n \<noteq> []"
  by (subst nat_digits.simps) simp

lemma nat_digits_chars: "set (nat_digits n) \<subseteq> set ''0123456789''"
proof (induction n rule: nat_digits.induct)
  case (1 n)
  show ?case
  proof (cases "n < 10")
    case True
    then have "''0123456789'' ! n \<in> set ''0123456789''"
      by (intro nth_mem) simp
    with True show ?thesis
      by (subst nat_digits.simps) simp
  next
    case False
    have "n mod 10 < length ''0123456789''" by simp
    then have "''0123456789'' ! (n mod 10) \<in> set ''0123456789''"
      by (rule nth_mem)
    with False "1.IH" show ?thesis
      by (subst nat_digits.simps) simp
  qed
qed

lemma nat_digits_leading: "0 < n \<Longrightarrow> hd (nat_digits n) \<noteq> CHR ''0''"
proof (induction n rule: nat_digits.induct)
  case (1 n)
  show ?case
  proof (cases "n < 10")
    case True
    then have eq: "nat_digits n = [''0123456789'' ! n]"
      by (subst nat_digits.simps) (simp only: if_True)
    from "1.prems" True have "''0123456789'' ! n \<noteq> CHR ''0''"
      by (rule nth_digit_nonzero)
    then show ?thesis
      by (simp only: eq list.sel not_False_eq_True)
  next
    case False
    then have "0 < n div 10" by simp
    with False "1.IH" show ?thesis
      by (subst nat_digits.simps) (simp add: nat_digits_nonempty)
  qed
qed

text \<open>A safe integer never brings an empty segment, a question mark or a slash.\<close>

lemma SafeInteger_segment:
  "toString (IdNum (SafeInteger negative magnitude)) \<noteq> []
   \<and> CHR ''?'' \<notin> set (toString (IdNum (SafeInteger negative magnitude)))
   \<and> last (toString (IdNum (SafeInteger negative magnitude))) \<noteq> CHR ''/''"
proof -
  have q: "CHR ''?'' \<notin> set (nat_digits k)" for k
    using nat_digits_chars [of k] by fastforce
  have l: "last (nat_digits k) \<noteq> CHR ''/''" for k
  proof
    assume "last (nat_digits k) = CHR ''/''"
    moreover have "last (nat_digits k) \<in> set (nat_digits k)"
      using nat_digits_nonempty by simp
    ultimately show False using nat_digits_chars [of k] by fastforce
  qed
  show ?thesis
    by (simp add: nat_digits_nonempty q l)
qed

section \<open>Claims\<close>

text \<open>
  C1. If the base-URL argument is omitted or empty the base comes from the
  \<open>BASE_URL\<close> environment variable, and if that is absent too it is the default
  \<open>http://localhost:5052\<close>; no configuration gives an empty or undefined base.
  The class-based variant does this (lemma \<open>baseUrl_lazy_resolution\<close>). The object-literal
  variant, whose documentation promises the same default, does not: with \<open>BASE_URL\<close>
  unset its base is the text \<open>undefined\<close>, and with \<open>BASE_URL\<close> set to the empty
  string its base is empty. The theorem evaluates both variants at these environments.
\<close>

theorem C1_object_literal_variant_has_no_default:
  "BaseUrl (LittleBugShop_eager Map.empty) = ''undefined''
   \<and> Controllers (LittleBugShop_eager Map.empty) (Users Users_login) = ''undefined/api/Users/login''
   \<and> BaseUrl (LittleBugShop_eager (Map.empty(''BASE_URL'' \<mapsto> ''''))) = ''''
   \<and> Controllers (LittleBugShop_eager (Map.empty(''BASE_URL'' \<mapsto> ''''))) (Users Users_login)
       = ''/api/Users/login''
   \<and> baseUrl (LittleBugShop_lazy Map.empty None) = ''http://localhost:5052''
   \<and> baseUrl (LittleBugShop_lazy (Map.empty(''BASE_URL'' \<mapsto> '''')) (Some '''')) = ''http://localhost:5052''"
  by (simp add: Controllers_path BaseUrl_eager baseUrl_lazy interpolate_def or_else_def
      path_of_def)

text \<open>
  C2. With the override \<open>https://staging.example.com\<close> the login URL is exactly
  \<open>https://staging.example.com/api/Users/login\<close>, and any non-empty base URL that the
  caller supplies is the prefix of every URL produced, whatever the environment holds.
  The override is an argument of the class-based \<open>LittleBugShop\<close>.
\<close>

theorem C2_override_is_prefix:
  assumes "b \<noteq> []"
  shows "UrlBuilder_get (LittleBugShop_lazy env (Some ''https://staging.example.com''))
           (Users Users_login) = ''https://staging.example.com/api/Users/login''
     \<and> baseUrl (LittleBugShop_lazy env (Some b)) = b
     \<and> UrlBuilder_get (LittleBugShop_lazy env (Some b)) op = b @ ''/api'' @ path_of op
     \<and> take (length b) (UrlBuilder_get (LittleBugShop_lazy env (Some b)) op) = b"
  using assms
  by (simp add: UrlBuilder_get_path baseUrl_lazy or_else_def path_of_def)

theorem C2_override_is_prefix_witness:
  "''https://production.com'' \<noteq> []
   \<and> UrlBuilder_get
        (LittleBugShop_lazy (Map.empty(''BASE_URL'' \<mapsto> ''http://10.0.0.1:8080''))
           (Some ''https://production.com''))
        (Products (Products_getById (IdNum (SafeInteger False 456))))
      = ''https://production.com/api/Products/456''"
  using C2_override_is_prefix [of "''https://production.com''"
      "Map.empty(''BASE_URL'' \<mapsto> ''http://10.0.0.1:8080'')"
      "Products (Products_getById (IdNum (SafeInteger False 456)))"]
  by (simp add: baseUrl_lazy or_else_def endpoints_new_defs nat_digits.simps)

text \<open>
  C3. For every operation of the table and every resolved base URL the object-literal
  (eager) variant and the class-based (lazy) variant return the same string: both for
  the endpoint builders run on the same base, and for the two top-level functions
  whenever they resolve to the same base.
\<close>

theorem C3_variants_agree:
  "createLittleBugShopEndpoints (LittleBugShop_buildUrl b) op
     = UrlBuilder_get \<lparr>baseUrl = b\<rparr> op
   \<and> (BaseUrl (LittleBugShop_eager env1) = baseUrl (LittleBugShop_lazy env2 a) \<longrightarrow>
        Controllers (LittleBugShop_eager env1) op
          = UrlBuilder_get (LittleBugShop_lazy env2 a) op)"
  by (simp add: Controllers_path UrlBuilder_get_path LittleBugShop_buildUrl_def
      create_callback [of "LittleBugShop_buildUrl b"])

theorem C3_variants_agree_witness:
  "BaseUrl (LittleBugShop_eager (Map.empty(''BASE_URL'' \<mapsto> ''http://shop.test'')))
     = baseUrl (LittleBugShop_lazy Map.empty (Some ''http://shop.test''))
   \<and> Controllers (LittleBugShop_eager (Map.empty(''BASE_URL'' \<mapsto> ''http://shop.test'')))
        (Reviews (Reviews_moderate (IdNum (SafeInteger False 3)) (IdStr ''r7'')))
     = ''http://shop.test/api/products/3/Reviews/r7/moderate''
   \<and> UrlBuilder_get (LittleBugShop_lazy Map.empty (Some ''http://shop.test''))
        (Reviews (Reviews_moderate (IdNum (SafeInteger False 3)) (IdStr ''r7'')))
     = ''http://shop.test/api/products/3/Reviews/r7/moderate''"
  using C3_variants_agree [of "''http://shop.test''"
      "Reviews (Reviews_moderate (IdNum (SafeInteger False 3)) (IdStr ''r7''))"
      "Map.empty(''BASE_URL'' \<mapsto> ''http://shop.test'')" Map.empty "Some ''http://shop.test''"]
  by (simp add: Controllers_path BaseUrl_eager baseUrl_lazy interpolate_def or_else_def
      endpoints_new_defs path_of_def nat_digits.simps)



text \<open>
  C5. \<open>Reviews.getById(productId, reviewId)\<close> puts its arguments in declaration order:
  base, \<open>/api/products/\<close>, the product id, \<open>/Reviews/\<close>, the review id, in both
  variants and for every pair of arguments. A string argument is inserted as it is; a
  safe integer is inserted as its decimal numeral (digits only, denoting the number,
  without a leading zero), after a minus sign when it is negative. With no override
  and no \<open>BASE_URL\<close> the call \<open>getById(10, 5)\<close> of the class-based variant gives
  \<open>http://localhost:5052/api/products/10/Reviews/5\<close>.
\<close>

theorem C5_reviews_getById_order:
  "UrlBuilder_get (LittleBugShop_lazy env a) (Reviews (Reviews_getById productId reviewId))
     = baseUrl (LittleBugShop_lazy env a) @ ''/api/products/'' @ toString productId
         @ ''/Reviews/'' @ toString reviewId
   \<and> Controllers (LittleBugShop_eager env) (Reviews (Reviews_getById productId reviewId))
     = BaseUrl (LittleBugShop_eager env) @ ''/api/products/'' @ toString productId
         @ ''/Reviews/'' @ toString reviewId
   \<and> UrlBuilder_get (LittleBugShop_lazy env a) (Reviews (Reviews_getById (IdStr p) (IdStr r)))
     = baseUrl (LittleBugShop_lazy env a) @ ''/api/products/'' @ p @ ''/Reviews/'' @ r
   \<and> Controllers (LittleBugShop_eager env) (Reviews (Reviews_getById (IdStr p) (IdStr r)))
     = BaseUrl (LittleBugShop_eager env) @ ''/api/products/'' @ p @ ''/Reviews/'' @ r
   \<and> UrlBuilder_get (LittleBugShop_lazy env a)
        (Reviews (Reviews_getById (IdNum (SafeInteger False v)) (IdNum (SafeInteger False w))))
     = baseUrl (LittleBugShop_lazy env a) @ ''/api/products/'' @ nat_digits (unat v)
         @ ''/Reviews/'' @ nat_digits (unat w)
   \<and> Controllers (LittleBugShop_eager env)
        (Reviews (Reviews_getById (IdNum (SafeInteger False v)) (IdNum (SafeInteger False w))))
     = BaseUrl (LittleBugShop_eager env) @ ''/api/products/'' @ nat_digits (unat v)
         @ ''/Reviews/'' @ nat_digits (unat w)
   \<and> toString (IdStr p) = p
   \<and> toString (IdNum (OtherNumber r)) = r
   \<and> toString (IdNum (SafeInteger negative v))
     = (if negative \<and> v \<noteq> 0 then ''-'' else []) @ nat_digits (unat v)
   \<and> digits_value (nat_digits n) = n
   \<and> set (nat_digits n) \<subseteq> set ''0123456789''
   \<and> nat_digits 0 = ''0''
   \<and> hd (nat_digits (Suc n)) \<noteq> CHR ''0''
   \<and> UrlBuilder_get (LittleBugShop_lazy Map.empty None)
        (Reviews (Reviews_getById (IdNum (SafeInteger False 10)) (IdNum (SafeInteger False 5))))
     = ''http://localhost:5052/api/products/10/Reviews/5''
   \<and> UrlBuilder_get (LittleBugShop_lazy Map.empty None)
        (Reviews (Reviews_getById (IdNum (SafeInteger False 5)) (IdNum (SafeInteger False 10))))
     = ''http://localhost:5052/api/products/5/Reviews/10''
   \<and> Controllers (LittleBugShop_eager (Map.empty(''BASE_URL'' \<mapsto> ''http://localhost:5052'')))
        (Reviews (Reviews_getById (IdNum (SafeInteger False 10)) (IdNum (SafeInteger False 5))))
     = ''http://localhost:5052/api/products/10/Reviews/5''
   \<and> UrlBuilder_get (LittleBugShop_lazy Map.empty None)
        (Reviews (Reviews_getById (IdStr ''abc'') (IdNum (SafeInteger True 7))))
     = ''http://localhost:5052/api/products/abc/Reviews/-7''
   \<and> UrlBuilder_get (LittleBugShop_lazy Map.empty None)
        (Reviews (Reviews_getById (IdNum (SafeInteger False 9007199254740991))
           (IdNum (OtherNumber ''1e+21''))))
     = ''http://localhost:5052/api/products/9007199254740991/Reviews/1e+21''"
proof -
  have lead: "hd (nat_digits (Suc n)) \<noteq> CHR ''0''"
    by (rule nat_digits_leading) simp
  have zero: "nat_digits 0 = ''0''"
    by (simp add: nat_digits.simps)
  have general:
    "UrlBuilder_get (LittleBugShop_lazy env' a') (Reviews (Reviews_getById x y))
       = baseUrl (LittleBugShop_lazy env' a') @ ''/api/products/'' @ toString x
           @ ''/Reviews/'' @ toString y"
    "Controllers (LittleBugShop_eager env') (Reviews (Reviews_getById x y))
       = BaseUrl (LittleBugShop_eager env') @ ''/api/products/'' @ toString x
           @ ''/Reviews/'' @ toString y" for x y env' a'
    by (simp_all add: Controllers_path UrlBuilder_get_path path_of_def del: UrlBuilder_get.simps)
  have inst:
    "UrlBuilder_get (LittleBugShop_lazy Map.empty None)
        (Reviews (Reviews_getById (IdNum (SafeInteger False 10)) (IdNum (SafeInteger False 5))))
     = ''http://localhost:5052/api/products/10/Reviews/5''"
    "UrlBuilder_get (LittleBugShop_lazy Map.empty None)
        (Reviews (Reviews_getById (IdNum (SafeInteger False 5)) (IdNum (SafeInteger False 10))))
     = ''http://localhost:5052/api/products/5/Reviews/10''"
    "Controllers (LittleBugShop_eager (Map.empty(''BASE_URL'' \<mapsto> ''http://localhost:5052'')))
        (Reviews (Reviews_getById (IdNum (SafeInteger False 10)) (IdNum (SafeInteger False 5))))
     = ''http://localhost:5052/api/products/10/Reviews/5''"
    "UrlBuilder_get (LittleBugShop_lazy Map.empty None)
        (Reviews (Reviews_getById (IdStr ''abc'') (IdNum (SafeInteger True 7))))
     = ''http://localhost:5052/api/products/abc/Reviews/-7''"
    "UrlBuilder_get (LittleBugShop_lazy Map.empty None)
        (Reviews (Reviews_getById (IdNum (SafeInteger False 9007199254740991))
           (IdNum (OtherNumber ''1e+21''))))
     = ''http://localhost:5052/api/products/9007199254740991/Reviews/1e+21''"
    by (simp_all add: general BaseUrl_eager interpolate_def baseUrl_lazy or_else_def
        nat_digits.simps del: UrlBuilder_get.simps)
  have str: "toString (IdStr p) = p" "toString (IdNum (OtherNumber r)) = r"
    "toString (IdNum (SafeInteger negative v))
       = (if negative \<and> v \<noteq> 0 then ''-'' else []) @ nat_digits (unat v)"
    by simp_all
  have g1: "UrlBuilder_get (LittleBugShop_lazy env a) (Reviews (Reviews_getById (IdStr p) (IdStr r)))
     = baseUrl (LittleBugShop_lazy env a) @ ''/api/products/'' @ p @ ''/Reviews/'' @ r"
    "Controllers (LittleBugShop_eager env) (Reviews (Reviews_getById (IdStr p) (IdStr r)))
     = BaseUrl (LittleBugShop_eager env) @ ''/api/products/'' @ p @ ''/Reviews/'' @ r"
    by (simp_all add: general del: UrlBuilder_get.simps)
  have g2: "UrlBuilder_get (LittleBugShop_lazy env a)
        (Reviews (Reviews_getById (IdNum (SafeInteger False v)) (IdNum (SafeInteger False w))))
     = baseUrl (LittleBugShop_lazy env a) @ ''/api/products/'' @ nat_digits (unat v)
         @ ''/Reviews/'' @ nat_digits (unat w)"
    "Controllers (LittleBugShop_eager env)
        (Reviews (Reviews_getById (IdNum (SafeInteger False v)) (IdNum (SafeInteger False w))))
     = BaseUrl (LittleBugShop_eager env) @ ''/api/products/'' @ nat_digits (unat v)
         @ ''/Reviews/'' @ nat_digits (unat w)"
    by (simp_all add: general del: UrlBuilder_get.simps)
  show ?thesis
    using general g1 g2 str inst lead zero
      digits_value_nat_digits [of n] nat_digits_chars [of n]
    by blast
qed

text \<open>
  C6. \<open>Coupons.validate(code)\<close> is base, \<open>/api/Coupons/validate/\<close> and the code, character
  for character, in both variants: nothing is percent-encoded, also not a space, a
  slash or a question mark. With the default base, \<open>validate("CODE123")\<close> is
  \<open>http://localhost:5052/api/Coupons/validate/CODE123\<close>.
\<close>

theorem C6_coupons_validate_verbatim:
  "UrlBuilder_get (LittleBugShop_lazy env a) (Coupons (Coupons_validate code))
     = baseUrl (LittleBugShop_lazy env a) @ ''/api/Coupons/validate/'' @ code
   \<and> Controllers (LittleBugShop_eager env) (Coupons (Coupons_validate code))
     = BaseUrl (LittleBugShop_eager env) @ ''/api/Coupons/validate/'' @ code
   \<and> UrlBuilder_get (LittleBugShop_lazy Map.empty None) (Coupons (Coupons_validate ''CODE123''))
     = ''http://localhost:5052/api/Coupons/validate/CODE123''
   \<and> UrlBuilder_get (LittleBugShop_lazy Map.empty None) (Coupons (Coupons_validate ''10% off/a?b''))
     = ''http://localhost:5052/api/Coupons/validate/10% off/a?b''"
  by (simp add: Controllers_path UrlBuilder_get_path baseUrl_lazy or_else_def path_of_def
      del: UrlBuilder_get.simps)

text \<open>
  C7. The path after the base does not depend on the base: for any two ways of
  constructing the registry (any environments, any overrides, also none or an empty
  one) and any operation with fixed arguments, each URL starts with its own resolved
  base and what follows the base is the same string in both. This holds within the
  class-based variant, within the object-literal variant, and between them.
\<close>

theorem C7_path_suffix_invariant:
  "take (length (baseUrl (LittleBugShop_lazy env1 a1))) (UrlBuilder_get (LittleBugShop_lazy env1 a1) op)
     = baseUrl (LittleBugShop_lazy env1 a1)
   \<and> drop (length (baseUrl (LittleBugShop_lazy env1 a1))) (UrlBuilder_get (LittleBugShop_lazy env1 a1) op)
     = drop (length (baseUrl (LittleBugShop_lazy env2 a2))) (UrlBuilder_get (LittleBugShop_lazy env2 a2) op)
   \<and> take (length (BaseUrl (LittleBugShop_eager env1))) (Controllers (LittleBugShop_eager env1) op)
     = BaseUrl (LittleBugShop_eager env1)
   \<and> drop (length (BaseUrl (LittleBugShop_eager env1))) (Controllers (LittleBugShop_eager env1) op)
     = drop (length (BaseUrl (LittleBugShop_eager env2))) (Controllers (LittleBugShop_eager env2) op)
   \<and> drop (length (BaseUrl (LittleBugShop_eager env1))) (Controllers (LittleBugShop_eager env1) op)
     = drop (length (baseUrl (LittleBugShop_lazy env2 a2))) (UrlBuilder_get (LittleBugShop_lazy env2 a2) op)
   \<and> drop (length (baseUrl (LittleBugShop_lazy env1 a1))) (UrlBuilder_get (LittleBugShop_lazy env1 a1) op)
     = ''/api'' @ path_of op"
  by (simp add: Controllers_path UrlBuilder_get_path del: UrlBuilder_get.simps)

text \<open>
  C8 (as stated: for all parameter values the URL has no trailing slash and no
  \<open>?\<close>). An empty string id leaves a trailing slash, and a coupon code containing
  \<open>?\<close> puts a query string into the URL, in both variants.
\<close>

theorem C8_trailing_slash_and_query_counterexample:
  "UrlBuilder_get (LittleBugShop_lazy Map.empty None) (Users (Users_getById (IdStr '''')))
     = ''http://localhost:5052/api/Users/''
   \<and> last (UrlBuilder_get (LittleBugShop_lazy Map.empty None) (Users (Users_getById (IdStr ''''))))
     = CHR ''/''
   \<and> UrlBuilder_get (LittleBugShop_lazy Map.empty None) (Coupons (Coupons_validate ''X?all=1''))
     = ''http://localhost:5052/api/Coupons/validate/X?all=1''
   \<and> CHR ''?'' \<in> set (UrlBuilder_get (LittleBugShop_lazy Map.empty None)
                       (Coupons (Coupons_validate ''X?all=1'')))
   \<and> last (Controllers (LittleBugShop_eager (Map.empty(''BASE_URL'' \<mapsto> ''http://h'')))
             (Users (Users_getById (IdStr '''')))) = CHR ''/''
   \<and> CHR ''?'' \<in> set (Controllers (LittleBugShop_eager (Map.empty(''BASE_URL'' \<mapsto> ''http://h'')))
                       (Coupons (Coupons_validate ''X?all=1'')))"
  by (simp add: Controllers_path BaseUrl_eager UrlBuilder_get_path baseUrl_lazy
      interpolate_def or_else_def path_of_def del: UrlBuilder_get.simps)

text \<open>
  C8 (amended). The registry adds no query string and no trailing slash of its own, for
  every operation and all parameter values: the URL contains \<open>?\<close> exactly when the
  resolved base or the string form of one of the arguments contains it, and the URL
  ends with a slash exactly when the path template ends with a parameter and the string
  form of that argument is empty or ends with a slash. Both variants.
\<close>

theorem C8_query_and_trailing_slash_only_from_arguments:
  "(CHR ''?'' \<in> set (UrlBuilder_get (LittleBugShop_lazy env a) op))
     = (CHR ''?'' \<in> set (baseUrl (LittleBugShop_lazy env a))
        \<or> (\<exists>s \<in> set (op_args op). CHR ''?'' \<in> set s))
   \<and> (last (UrlBuilder_get (LittleBugShop_lazy env a) op) = CHR ''/'')
     = (case final_arg op of None \<Rightarrow> False | Some s \<Rightarrow> s = [] \<or> last s = CHR ''/'')
   \<and> (CHR ''?'' \<in> set (Controllers (LittleBugShop_eager env) op))
     = (CHR ''?'' \<in> set (BaseUrl (LittleBugShop_eager env))
        \<or> (\<exists>s \<in> set (op_args op). CHR ''?'' \<in> set s))
   \<and> (last (Controllers (LittleBugShop_eager env) op) = CHR ''/'')
     = (case final_arg op of None \<Rightarrow> False | Some s \<Rightarrow> s = [] \<or> last s = CHR ''/'')"
  by (simp add: Controllers_path UrlBuilder_get_path path_of_query path_of_nonempty
      path_of_trailing_slash del: UrlBuilder_get.simps)

theorem C8_query_and_trailing_slash_only_from_arguments_witness:
  "op_args (Products (Products_availability (IdStr ''''))) = ['''']
   \<and> final_arg (Products (Products_availability (IdStr ''''))) = None
   \<and> UrlBuilder_get (LittleBugShop_lazy Map.empty None) (Products (Products_availability (IdStr '''')))
       = ''http://localhost:5052/api/Products//availability''
   \<and> last (UrlBuilder_get (LittleBugShop_lazy Map.empty None)
             (Products (Products_availability (IdStr '''')))) \<noteq> CHR ''/''
   \<and> CHR ''?'' \<notin> set (UrlBuilder_get (LittleBugShop_lazy Map.empty None)
                       (Products (Products_availability (IdStr ''''))))"
  using C8_query_and_trailing_slash_only_from_arguments
      [of Map.empty None "Products (Products_availability (IdStr ''''))"]
  by (simp add: baseUrl_lazy or_else_def endpoints_new_defs)

text \<open>
  C10. The object-literal variant's \<open>LittleBugShop\<close> takes no base-URL argument (its
  only input is the environment) and its base is the template interpolation of
  \<open>process.env.BASE_URL\<close>: the value of the variable when it is set, also when it is
  empty, and the text \<open>undefined\<close> when it is unset. Every URL is that base followed
  by \<open>/api\<close> and the path, so with the variable unset every URL starts with
  \<open>undefined\<close>, for instance \<open>undefined/api/Users/register\<close>.
\<close>

theorem C10_base_is_interpolated_BASE_URL:
  "BaseUrl (LittleBugShop_eager env)
     = (case env ''BASE_URL'' of None \<Rightarrow> ''undefined'' | Some s \<Rightarrow> s)
   \<and> Controllers (LittleBugShop_eager env) op
     = (case env ''BASE_URL'' of None \<Rightarrow> ''undefined'' | Some s \<Rightarrow> s) @ ''/api'' @ path_of op
   \<and> Controllers (LittleBugShop_eager env) (Users Users_register)
     = (case env ''BASE_URL'' of None \<Rightarrow> ''undefined'' | Some s \<Rightarrow> s) @ ''/api/Users/register''
   \<and> (env ''BASE_URL'' = None \<longrightarrow>
        BaseUrl (LittleBugShop_eager env) = ''undefined''
        \<and> take 9 (Controllers (LittleBugShop_eager env) op) = ''undefined''
        \<and> Controllers (LittleBugShop_eager env) (Users Users_register)
            = ''undefined/api/Users/register'')
   \<and> Controllers (LittleBugShop_eager (Map.empty(''BASE_URL'' \<mapsto> ''https://shop.test'')))
        (Users Users_register) = ''https://shop.test/api/Users/register''
   \<and> Controllers (LittleBugShop_eager (Map.empty(''BASE_URL'' \<mapsto> '''')))
        (Users Users_register) = ''/api/Users/register''"
  by (simp add: Controllers_path BaseUrl_eager interpolate_def path_of_def
      split: option.splits)

theorem C10_base_is_interpolated_BASE_URL_witness:
  "(Map.empty(''API_KEY'' \<mapsto> ''k'')) ''BASE_URL'' = None
   \<and> BaseUrl (LittleBugShop_eager (Map.empty(''API_KEY'' \<mapsto> ''k''))) = ''undefined''
   \<and> Controllers (LittleBugShop_eager (Map.empty(''API_KEY'' \<mapsto> ''k''))) (Cart Cart_delete)
       = ''undefined/api/Cart''
   \<and> take 9 (Controllers (LittleBugShop_eager (Map.empty(''API_KEY'' \<mapsto> ''k''))) (Cart Cart_delete))
       = ''undefined''
   \<and> Controllers (LittleBugShop_eager (Map.empty(''API_KEY'' \<mapsto> ''k''))) (Users Users_register)
       = ''undefined/api/Users/register''"
  using C10_base_is_interpolated_BASE_URL [of "Map.empty(''API_KEY'' \<mapsto> ''k'')" "Cart Cart_delete"]
  by (simp add: path_of_def)

end
